theory Spec2Isabelle
  imports Main "HOL-Library.Multiset"
begin

section \<open>Values, errors and strings\<close>

text \<open>
  The model covers \<^verbatim>\<open>src/seller.py\<close>. Python exceptions are values of \<open>error\<close>; a
  function that can raise returns \<open>error + 'a\<close> with \<open>Inl\<close> for the exception.
  A Python \<^verbatim>\<open>str\<close> is a \<open>string\<close> holding its UTF-8 bytes: every function of the
  source that looks inside a string (\<^verbatim>\<open>split(".")\<close>, the class \<^verbatim>\<open>[^0-9]\<close>, \<^verbatim>\<open>int\<close>)
  tests for ASCII characters only, and no byte of a multi-byte UTF-8 sequence is ASCII.
\<close>

datatype error =
  ValueError | TypeError | AttributeError | HTTPError | BadZipFile | FileNotFoundError
  | ReadError

text \<open>
  A spreadsheet cell as \<^verbatim>\<open>pandas.read_excel(...).to_dict(orient="records")\<close> hands it
  over, and the result of \<^verbatim>\<open>dict.get\<close>: a string, an integer, or \<^verbatim>\<open>None\<close> for a
  column the sheet does not have. Floating point cells are outside the model.
\<close>

datatype pyval = PStr string | PInt int | PNone

definition is_digit :: "char \<Rightarrow> bool" where
  "is_digit c \<longleftrightarrow> c \<in> set ''0123456789''"

definition digit_val :: "char \<Rightarrow> int" where
  "digit_val c = int (of_char c) - 48"

definition digit_char :: "nat \<Rightarrow> char" where
  "digit_char d = char_of (48 + d)"

fun show_nat :: "nat \<Rightarrow> string" where
  "show_nat n = (if n < 10 then [digit_char n] else show_nat (n div 10) @ [digit_char (n mod 10)])"

declare show_nat.simps [simp del]

definition show_int :: "int \<Rightarrow> string" where
  "show_int i = (if i < 0 then CHR ''-'' # show_nat (nat (- i)) else show_nat (nat i))"

text \<open>\<^verbatim>\<open>str(x)\<close>.\<close>

fun py_str :: "pyval \<Rightarrow> string" where
  "py_str (PStr s) = s"
| "py_str (PInt i) = show_int i"
| "py_str PNone = ''None''"

text \<open>
  \<^verbatim>\<open>int(x)\<close> in base 10. For a string: blanks are stripped at both ends, one sign may
  lead, and the rest is decimal digits, where a single underscore may stand between two
  digits; anything else raises \<^verbatim>\<open>ValueError\<close>. The blanks are the six ASCII ones,
  the digits the ten ASCII ones (the interpreter's limit on the number of digits and the
  decimal digits and blanks of other scripts are outside the model).
\<close>

definition is_space :: "char \<Rightarrow> bool" where
  "is_space c \<longleftrightarrow> c \<in> set [CHR 0x09, CHR 0x0A, CHR 0x0B, CHR 0x0C, CHR 0x0D, CHR 0x20]"

definition strip :: "string \<Rightarrow> string" where
  "strip s = rev (dropWhile is_space (rev (dropWhile is_space s)))"

fun digits_value :: "bool \<Rightarrow> int \<Rightarrow> string \<Rightarrow> int option" where
  "digits_value after_digit acc [] = (if after_digit then Some acc else None)"
| "digits_value after_digit acc (c # cs) =
     (if is_digit c then digits_value True (10 * acc + digit_val c) cs
      else if c = CHR ''_'' \<and> after_digit then digits_value False acc cs
      else None)"

definition int_of_string :: "string \<Rightarrow> error + int" where
  "int_of_string s =
     (let t = strip s;
          negative = (t \<noteq> [] \<and> hd t = CHR ''-'');
          signed = (t \<noteq> [] \<and> (hd t = CHR ''-'' \<or> hd t = CHR ''+''));
          body = (if signed then tl t else t)
      in case digits_value False 0 body of
           None \<Rightarrow> Inl ValueError
         | Some v \<Rightarrow> Inr (if negative then - v else v))"

fun py_int :: "pyval \<Rightarrow> error + int" where
  "py_int (PStr s) = int_of_string s"
| "py_int (PInt i) = Inr i"
| "py_int PNone = Inl TypeError"

section \<open>Price and stock normalisation\<close>

text \<open>
  \<^verbatim>\<open>s.split(sep)\<close> for a one-character separator always yields at least one piece:
  the result is the first piece and the list of the others, so that \<^verbatim>\<open>[0]\<close> is \<open>fst\<close>.
\<close>

fun split_on :: "char \<Rightarrow> string \<Rightarrow> string \<times> string list" where
  "split_on sep [] = ([], [])"
| "split_on sep (c # cs) =
     (case split_on sep cs of (p, ps) \<Rightarrow> if c = sep then ([], p # ps) else (c # p, ps))"

text \<open>\<^verbatim>\<open>re.sub("[^0-9]", "", s)\<close>: every character outside \<^verbatim>\<open>0\<close>..\<^verbatim>\<open>9\<close> is deleted.\<close>

definition re_sub_non_digits :: "string \<Rightarrow> string" where
  "re_sub_non_digits s = filter is_digit s"

definition price_conversion :: "string \<Rightarrow> string" where
  "price_conversion price = re_sub_non_digits (fst (split_on CHR ''.'' price))"

text \<open>
  The quantity rule of \<^verbatim>\<open>create_stocks\<close> (the \<^verbatim>\<open>if\<close>/\<^verbatim>\<open>elif\<close>/\<^verbatim>\<open>else\<close> on
  \<^verbatim>\<open>count = str(watch.get(...))\<close>); the \<^verbatim>\<open>else\<close> branch converts the cell itself.
\<close>

definition stock_of_count :: "pyval \<Rightarrow> error + int" where
  "stock_of_count quantity =
     (let count = py_str quantity
      in if count = ''>10'' then Inr 100
         else if count = ''1'' then Inr 0
         else py_int quantity)"

section \<open>Reconciliation\<close>

text \<open>
  One row of the vendor sheet: the cells under the columns \<^verbatim>\<open>Kod\<close> (code),
  \<^verbatim>\<open>Kolichestvo\<close> (quantity) and \<^verbatim>\<open>Tsena\<close> (price), whose headers are Cyrillic in
  the sheet. The update dictionaries and the marketplace's products all carry an
  \<^verbatim>\<open>offer_id\<close>.
\<close>

record vendor_record =
  Kod :: pyval
  Kolichestvo :: pyval
  Tsena :: pyval

record offer =
  offer_id :: string

record stock_update = offer +
  stock :: int

record price_update = offer +
  auto_action_enabled :: string
  currency_code :: string
  old_price :: string
  price :: string

text \<open>
  The two list objects that \<^verbatim>\<open>create_stocks\<close> and \<^verbatim>\<open>create_prices\<close> receive. A call
  returns its result together with the objects as the call leaves them, so that a caller
  who passes the same list twice sees what the first call did to it.
\<close>

record objects =
  watch_remnants :: "vendor_record list"
  offer_ids :: "string list"

text \<open>
  The first loop of \<^verbatim>\<open>create_stocks\<close>, with \<^verbatim>\<open>stocks\<close> and \<^verbatim>\<open>offer_ids\<close> as its state.
  \<^verbatim>\<open>offer_ids.remove(x)\<close> deletes the first occurrence of \<open>x\<close>. When \<^verbatim>\<open>int\<close> raises,
  the list keeps the removals made so far.
\<close>

fun stocks_loop ::
  "vendor_record list \<Rightarrow> stock_update list \<Rightarrow> string list
     \<Rightarrow> (error + stock_update list) \<times> string list" where
  "stocks_loop [] stocks ids = (Inr stocks, ids)"
| "stocks_loop (watch # rest) stocks ids =
     (if py_str (Kod watch) \<in> set ids then
        (case stock_of_count (Kolichestvo watch) of
           Inl e \<Rightarrow> (Inl e, ids)
         | Inr n \<Rightarrow>
             stocks_loop rest
               (stocks @ [\<lparr>offer_id = py_str (Kod watch), stock = n\<rparr>])
               (remove1 (py_str (Kod watch)) ids))
      else stocks_loop rest stocks ids)"

definition create_stocks :: "objects \<Rightarrow> (error + stock_update list) \<times> objects" where
  "create_stocks a =
     (case stocks_loop (watch_remnants a) [] (offer_ids a) of
        (Inl e, ids) \<Rightarrow> (Inl e, a\<lparr>offer_ids := ids\<rparr>)
      | (Inr stocks, ids) \<Rightarrow>
          (Inr (stocks @ map (\<lambda>i. \<lparr>offer_id = i, stock = 0\<rparr>) ids), a\<lparr>offer_ids := ids\<rparr>))"

text \<open>
  The loop of \<^verbatim>\<open>create_prices\<close>. \<^verbatim>\<open>price_conversion\<close> calls \<^verbatim>\<open>split\<close> on its
  argument, which only a string has.
\<close>

fun prices_loop ::
  "vendor_record list \<Rightarrow> price_update list \<Rightarrow> string list \<Rightarrow> error + price_update list" where
  "prices_loop [] prices ids = Inr prices"
| "prices_loop (watch # rest) prices ids =
     (if py_str (Kod watch) \<in> set ids then
        (case Tsena watch of
           PStr p \<Rightarrow>
             prices_loop rest
               (prices @ [\<lparr>offer_id = py_str (Kod watch), auto_action_enabled = ''UNKNOWN'',
                           currency_code = ''RUB'', old_price = ''0'',
                           price = price_conversion p\<rparr>])
               ids
         | _ \<Rightarrow> Inl AttributeError)
      else prices_loop rest prices ids)"

definition create_prices :: "objects \<Rightarrow> (error + price_update list) \<times> objects" where
  "create_prices a = (prices_loop (watch_remnants a) [] (offer_ids a), a)"

section \<open>Batches\<close>

text \<open>\<^verbatim>\<open>range(start, stop, step)\<close>; a step of zero raises \<^verbatim>\<open>ValueError\<close>.\<close>

function py_range :: "int \<Rightarrow> int \<Rightarrow> int \<Rightarrow> int list" where
  "py_range i stop step =
     (if 0 < step \<and> i < stop then i # py_range (i + step) stop step
      else if step < 0 \<and> stop < i then i # py_range (i + step) stop step
      else [])"
  by pat_completeness auto
termination
  by (relation "measure (\<lambda>(i, stop, step). nat (if 0 < step then stop - i else i - stop))") auto

declare py_range.simps [simp del]

definition range3 :: "int \<Rightarrow> int \<Rightarrow> int \<Rightarrow> error + int list" where
  "range3 start stop step = (if step = 0 then Inl ValueError else Inr (py_range start stop step))"

text \<open>
  \<^verbatim>\<open>lst[i:j]\<close>: a negative bound counts from the end, and both bounds are clipped to
  the list.
\<close>

definition slice_index :: "nat \<Rightarrow> int \<Rightarrow> nat" where
  "slice_index len i = (if i < 0 then nat (max 0 (i + int len)) else min (nat i) len)"

definition py_slice :: "'a list \<Rightarrow> int \<Rightarrow> int \<Rightarrow> 'a list" where
  "py_slice lst i j =
     (let a = slice_index (length lst) i; b = slice_index (length lst) j
      in take (b - a) (drop a lst))"

text \<open>
  \<^verbatim>\<open>divide\<close> is a generator; the model is \<^verbatim>\<open>list(divide(lst, n))\<close>, which is how every
  caller consumes it.
\<close>

definition divide :: "'a list \<Rightarrow> int \<Rightarrow> error + 'a list list" where
  "divide lst n =
     (case range3 0 (int (length lst)) n of
        Inl e \<Rightarrow> Inl e
      | Inr starts \<Rightarrow> Inr (map (\<lambda>i. py_slice lst i (i + n)) starts))"

section \<open>The marketplace's product list\<close>

text \<open>
  What \<^verbatim>\<open>get_product_list\<close> returns (the \<^verbatim>\<open>result\<close> object of the answer): one page
  of products, the number of products the seller has, and the cursor of the next page.
\<close>

record product = offer +
  product_id :: int

record product_page =
  items :: "product list"
  total :: int
  last_id :: string

text \<open>
  The loop of \<^verbatim>\<open>get_offer_ids\<close>, with \<^verbatim>\<open>last_id\<close> and \<^verbatim>\<open>product_list\<close> as its state.
  The marketplace is the function \<open>get_product_list\<close> from the cursor sent to the answer
  (or the exception of a failed request). The loop also keeps the cursors of the requests
  it has issued, oldest first. The source's loop has no bound: the model is a partial
  function, and \<open>None\<close> stands for a run that never ends.
\<close>

partial_function (option) fetch_products ::
  "(string \<Rightarrow> error + product_page) \<Rightarrow> string \<Rightarrow> product list \<Rightarrow> string list
     \<Rightarrow> ((error + product list) \<times> string list) option" where
  "fetch_products get_product_list cursor product_list requests =
     (case get_product_list cursor of
        Inl e \<Rightarrow> Some (Inl e, requests @ [cursor])
      | Inr some_prod \<Rightarrow>
          if total some_prod = int (length (product_list @ items some_prod))
          then Some (Inr (product_list @ items some_prod), requests @ [cursor])
          else fetch_products get_product_list (last_id some_prod)
                 (product_list @ items some_prod) (requests @ [cursor]))"

definition get_offer_ids ::
  "(string \<Rightarrow> error + product_page) \<Rightarrow> ((error + string list) \<times> string list) option" where
  "get_offer_ids get_product_list =
     (case fetch_products get_product_list [] [] [] of
        None \<Rightarrow> None
      | Some (Inl e, requests) \<Rightarrow> Some (Inl e, requests)
      | Some (Inr product_list, requests) \<Rightarrow> Some (Inr (map offer_id product_list), requests))"

text \<open>
  A marketplace for tests: it holds the products \<open>ps\<close>, reports their number as the
  total, and serves them in pages of \<open>limit\<close> products; its cursor counts the pages
  served, one character each.
\<close>

definition mock_marketplace :: "nat \<Rightarrow> product list \<Rightarrow> string \<Rightarrow> error + product_page" where
  "mock_marketplace limit ps cursor =
     Inr \<lparr>items = take limit (drop (limit * length cursor) ps),
          total = int (length ps),
          last_id = CHR ''p'' # cursor\<rparr>"

definition mock_products :: "nat \<Rightarrow> product list" where
  "mock_products n = map (\<lambda>k. \<lparr>offer_id = show_nat k, product_id = int k\<rparr>) [0..<n]"

section \<open>The vendor's inventory\<close>

text \<open>
  \<^verbatim>\<open>download_stock\<close> acts on the working directory, a map from file names to contents.
  The outside world is given by three parameters: the answer to the download (its body,
  or the exception of \<^verbatim>\<open>session.get\<close> and \<^verbatim>\<open>raise_for_status\<close>), \<open>unzip\<close> (the
  members of an archive as names with contents, or the exception for a body that is no
  archive) and \<open>read_excel\<close> (the rows of a spreadsheet file, or the exception of the
  parser).
\<close>

type_synonym directory = "string \<rightharpoonup> string"

fun extractall :: "(string \<times> string) list \<Rightarrow> directory \<Rightarrow> directory" where
  "extractall [] dir = dir"
| "extractall ((name, content) # members) dir = extractall members (dir(name \<mapsto> content))"

definition download_stock ::
  "(string \<Rightarrow> error + (string \<times> string) list) \<Rightarrow> (string \<Rightarrow> error + vendor_record list)
     \<Rightarrow> error + string \<Rightarrow> directory \<Rightarrow> (error + vendor_record list) \<times> directory" where
  "download_stock unzip read_excel response dir =
     (case response of
        Inl e \<Rightarrow> (Inl e, dir)
      | Inr body \<Rightarrow>
          (case unzip body of
             Inl e \<Rightarrow> (Inl e, dir)
           | Inr members \<Rightarrow>
               (let dir1 = extractall members dir
                in case dir1 ''ostatki.xls'' of
                     None \<Rightarrow> (Inl FileNotFoundError, dir1)
                   | Some xls \<Rightarrow>
                       (case read_excel xls of
                          Inl e \<Rightarrow> (Inl e, dir1)
                        | Inr rows \<Rightarrow> (Inr rows, dir1(''ostatki.xls'' := None))))))"

section \<open>The orchestrator\<close>

text \<open>
  Submitting the batches in order; \<open>send\<close> is \<^verbatim>\<open>update_stocks\<close> or \<^verbatim>\<open>update_price\<close>
  (the exception of a failed request, or nothing). The result keeps the batches sent.
\<close>

fun send_all :: "('a list \<Rightarrow> error + unit) \<Rightarrow> 'a list list \<Rightarrow> error + 'a list list" where
  "send_all send [] = Inr []"
| "send_all send (batch # batches) =
     (case send batch of
        Inl e \<Rightarrow> Inl e
      | Inr _ \<Rightarrow> (case send_all send batches of Inl e \<Rightarrow> Inl e | Inr sent \<Rightarrow> Inr (batch # sent)))"

record run =
  stocks :: "stock_update list"
  stock_batches :: "stock_update list list"
  prices :: "price_update list"
  price_batches :: "price_update list list"

text \<open>
  The \<^verbatim>\<open>try\<close> block of \<^verbatim>\<open>main\<close> from the two fetched lists on: \<open>ids\<close> is what
  \<^verbatim>\<open>get_offer_ids\<close> returned and \<open>rows\<close> what \<^verbatim>\<open>download_stock\<close> returned. Both
  \<^verbatim>\<open>create_stocks\<close> and \<^verbatim>\<open>create_prices\<close> are called with the same two objects. An
  exception ends the block (\<^verbatim>\<open>main\<close> prints it).
\<close>

definition main_updates ::
  "(stock_update list \<Rightarrow> error + unit) \<Rightarrow> (price_update list \<Rightarrow> error + unit)
     \<Rightarrow> string list \<Rightarrow> vendor_record list \<Rightarrow> error + run" where
  "main_updates update_stocks update_price ids rows =
     (case create_stocks \<lparr>watch_remnants = rows, offer_ids = ids\<rparr> of
        (Inl e, _) \<Rightarrow> Inl e
      | (Inr stocks1, objs1) \<Rightarrow>
          (case divide stocks1 100 of
             Inl e \<Rightarrow> Inl e
           | Inr some_stocks \<Rightarrow>
               (case send_all update_stocks some_stocks of
                  Inl e \<Rightarrow> Inl e
                | Inr sent_stocks \<Rightarrow>
                    (case create_prices objs1 of
                       (Inl e, _) \<Rightarrow> Inl e
                     | (Inr prices1, objs2) \<Rightarrow>
                         (case divide prices1 900 of
                            Inl e \<Rightarrow> Inl e
                          | Inr some_prices \<Rightarrow>
                              (case send_all update_price some_prices of
                                 Inl e \<Rightarrow> Inl e
                               | Inr sent_prices \<Rightarrow>
                                   Inr \<lparr>stocks = stocks1, stock_batches = sent_stocks,
                                        prices = prices1, price_batches = sent_prices\<rparr>))))))"

text \<open>
  \<^verbatim>\<open>upload_prices\<close> from its own fetch of the identifiers on: \<open>ids\<close> is the fresh list
  that its call of \<^verbatim>\<open>get_offer_ids\<close> returned.
\<close>

definition upload_prices ::
  "(price_update list \<Rightarrow> error + unit) \<Rightarrow> string list \<Rightarrow> vendor_record list
     \<Rightarrow> error + price_update list" where
  "upload_prices update_price ids rows =
     (case create_prices \<lparr>watch_remnants = rows, offer_ids = ids\<rparr> of
        (Inl e, _) \<Rightarrow> Inl e
      | (Inr prices1, _) \<Rightarrow>
          (case divide prices1 1000 of
             Inl e \<Rightarrow> Inl e
           | Inr some_prices \<Rightarrow>
               (case send_all update_price some_prices of
                  Inl e \<Rightarrow> Inl e
                | Inr _ \<Rightarrow> Inr prices1)))"

section \<open>Reference notions and test data\<close>

text \<open>
  A valid integer string, read off the words rather than the parser: after the blanks
  at both ends and one leading sign are taken away, what is left is not empty, begins
  and ends with a digit, holds digits and underscores only and no two underscores in a
  row. Its value is that of its digits, negated after a minus sign.
\<close>

fun no_double_underscore :: "string \<Rightarrow> bool" where
  "no_double_underscore (a # b # cs) =
     (\<not> (a = CHR ''_'' \<and> b = CHR ''_'') \<and> no_double_underscore (b # cs))"
| "no_double_underscore cs = True"

definition digit_group :: "string \<Rightarrow> bool" where
  "digit_group b \<longleftrightarrow>
     b \<noteq> [] \<and> is_digit (hd b) \<and> is_digit (last b)
     \<and> list_all (\<lambda>c. is_digit c \<or> c = CHR ''_'') b \<and> no_double_underscore b"

definition unsigned :: "string \<Rightarrow> string" where
  "unsigned t = (if t \<noteq> [] \<and> (hd t = CHR ''-'' \<or> hd t = CHR ''+'') then tl t else t)"

definition valid_integer :: "string \<Rightarrow> bool" where
  "valid_integer s \<longleftrightarrow> digit_group (unsigned (strip s))"

definition decimal_value :: "string \<Rightarrow> int" where
  "decimal_value ds = foldl (\<lambda>acc c. 10 * acc + digit_val c) 0 (filter is_digit ds)"

definition integer_value :: "string \<Rightarrow> int" where
  "integer_value s =
     (if strip s \<noteq> [] \<and> hd (strip s) = CHR ''-'' then - decimal_value (strip s)
      else decimal_value (strip s))"

text \<open>
  The end-to-end scenario: one vendor row with code 123, quantity \<^verbatim>\<open>>10\<close> and a price
  of 5'990.00 followed by the Cyrillic abbreviation of the rouble and a full stop, and
  the two known identifiers 123 and 124. Both update requests are accepted.
\<close>

definition scenario_price :: string where
  "scenario_price =
     ''5'' @ [CHR 0x27] @ ''990.00 '' @ [CHR 0xD1, CHR 0x80, CHR 0xD1, CHR 0x83, CHR 0xD0, CHR 0xB1]
       @ ''.''"

definition scenario_rows :: "vendor_record list" where
  "scenario_rows = [\<lparr>Kod = PStr ''123'', Kolichestvo = PStr ''>10'', Tsena = PStr scenario_price\<rparr>]"

definition scenario_ids :: "string list" where
  "scenario_ids = [''123'', ''124'']"

definition accept :: "'a \<Rightarrow> error + unit" where
  "accept batch = Inr ()"

text \<open>The vendor codes of the rows, as \<^verbatim>\<open>str\<close> renders them.\<close>

definition codes :: "vendor_record list \<Rightarrow> string list" where
  "codes rows = map (\<lambda>watch. py_str (Kod watch)) rows"

section \<open>Batches: properties of \<open>divide\<close>\<close>

lemma py_slice_chunk:
  "0 \<le> i \<Longrightarrow> 0 < n \<Longrightarrow> py_slice lst i (i + n) = take (nat n) (drop (nat i) lst)"
  by (auto simp: py_slice_def slice_index_def Let_def min_def nat_add_distrib)

lemma py_range_step:
  "0 < step \<Longrightarrow> i < stop \<Longrightarrow> py_range i stop step = i # py_range (i + step) stop step"
  by (subst py_range.simps) simp

lemma py_range_done:
  "0 < step \<Longrightarrow> stop \<le> i \<Longrightarrow> py_range i stop step = []"
  by (subst py_range.simps) simp

lemma py_range_negative_step:
  "step < 0 \<Longrightarrow> i \<le> stop \<Longrightarrow> py_range i stop step = []"
  by (subst py_range.simps) simp

lemma concat_chunks_from:
  "0 < n \<Longrightarrow> 0 \<le> i \<Longrightarrow>
   concat (map (\<lambda>k. py_slice lst k (k + n)) (py_range i (int (length lst)) n)) = drop (nat i) lst"
proof (induction i "int (length lst)" n rule: py_range.induct)
  case (1 i step)
  show ?case
  proof (cases "i < int (length lst)")
    case True
    have ih: "concat (map (\<lambda>k. py_slice lst k (k + step))
                (py_range (i + step) (int (length lst)) step)) = drop (nat (i + step)) lst"
      using 1 True by simp
    have d: "drop (nat (i + step)) lst = drop (nat step) (drop (nat i) lst)"
      using 1(3,4) by (simp add: nat_add_distrib add.commute)
    have "concat (map (\<lambda>k. py_slice lst k (k + step)) (py_range i (int (length lst)) step))
          = py_slice lst i (i + step) @ drop (nat (i + step)) lst"
      using True 1(3) ih by (simp add: py_range_step)
    also have "\<dots> = take (nat step) (drop (nat i) lst) @ drop (nat step) (drop (nat i) lst)"
      using 1(3,4) by (simp only: py_slice_chunk d)
    also have "\<dots> = drop (nat i) lst"
      by (rule append_take_drop_id)
    finally show ?thesis .
  next
    case False
    with 1 show ?thesis by (simp add: py_range_done)
  qed
qed

lemma chunk_sizes_from:
  "0 < n \<Longrightarrow> 0 \<le> i \<Longrightarrow>
   c \<in> set (map (\<lambda>k. py_slice lst k (k + n)) (py_range i (int (length lst)) n))
   \<Longrightarrow> c \<noteq> [] \<and> int (length c) \<le> n"
proof (induction i "int (length lst)" n rule: py_range.induct)
  case (1 i step)
  show ?case
  proof (cases "i < int (length lst)")
    case True
    from 1(5) have "c = py_slice lst i (i + step) \<or>
        c \<in> set (map (\<lambda>k. py_slice lst k (k + step))
                  (py_range (i + step) (int (length lst)) step))"
      using True 1(3) by (simp add: py_range_step)
    then show ?thesis
    proof
      assume "c = py_slice lst i (i + step)"
      then show ?thesis using True 1(3,4) by (auto simp: py_slice_chunk min_def)
    next
      assume "c \<in> set (map (\<lambda>k. py_slice lst k (k + step))
                  (py_range (i + step) (int (length lst)) step))"
      then show ?thesis using 1(1)[OF _ 1(3)] True 1(3,4) by simp
    qed
  next
    case False
    with 1 show ?thesis by (simp add: py_range_done)
  qed
qed

lemma butlast_chunks_from:
  "0 < n \<Longrightarrow> 0 \<le> i \<Longrightarrow>
   c \<in> set (butlast (map (\<lambda>k. py_slice lst k (k + n)) (py_range i (int (length lst)) n)))
   \<Longrightarrow> int (length c) = n"
proof (induction i "int (length lst)" n rule: py_range.induct)
  case (1 i step)
  show ?case
  proof (cases "i < int (length lst)")
    case True
    note lt = True
    show ?thesis
    proof (cases "i + step < int (length lst)")
      case True
      have unf: "py_range i (int (length lst)) step = i # py_range (i + step) (int (length lst)) step"
        using lt 1(3) by (simp add: py_range_step)
      have ne: "py_range (i + step) (int (length lst)) step \<noteq> []"
        using True 1(3) by (simp add: py_range_step)
      from 1(5) have "c = py_slice lst i (i + step) \<or>
          c \<in> set (butlast (map (\<lambda>k. py_slice lst k (k + step))
                    (py_range (i + step) (int (length lst)) step)))"
        using ne by (simp add: unf)
      then show ?thesis
      proof
        assume "c = py_slice lst i (i + step)"
        then show ?thesis using True 1(3,4) by (simp add: py_slice_chunk)
      next
        assume "c \<in> set (butlast (map (\<lambda>k. py_slice lst k (k + step))
                    (py_range (i + step) (int (length lst)) step)))"
        then show ?thesis using 1(1)[OF _ 1(3)] lt 1(3,4) by simp
      qed
    next
      case False
      have "py_range (i + step) (int (length lst)) step = []"
        using False 1(3) by (simp add: py_range_done)
      then have "py_range i (int (length lst)) step = [i]"
        using lt 1(3) by (simp add: py_range_step)
      with 1(5) show ?thesis by simp
    qed
  next
    case False
    then have "py_range i (int (length lst)) step = []"
      using 1(3) by (simp add: py_range_done)
    with 1(5) show ?thesis by simp
  qed
qed

lemma divide_positive:
  "0 < n \<Longrightarrow> divide lst n = Inr (map (\<lambda>k. py_slice lst k (k + n)) (py_range 0 (int (length lst)) n))"
  by (simp add: divide_def range3_def)

text \<open>
  Claim C8. For every list and every positive size \<open>n\<close>, the chunks that \<open>divide\<close>
  yields, concatenated in order, are the list again; every chunk but the last has
  length exactly \<open>n\<close> (and no chunk is empty or longer than \<open>n\<close>); the empty list
  yields no chunk.
\<close>

theorem divide_chunks:
  assumes "0 < n"
  shows "\<exists>chunks. divide lst n = Inr chunks \<and> concat chunks = lst
           \<and> (\<forall>c \<in> set (butlast chunks). int (length c) = n)
           \<and> (\<forall>c \<in> set chunks. c \<noteq> [] \<and> int (length c) \<le> n)
           \<and> divide ([] :: 'a list) n = Inr []"
proof -
  let ?chunks = "map (\<lambda>k. py_slice lst k (k + n)) (py_range 0 (int (length lst)) n)"
  have a: "divide lst n = Inr ?chunks"
    using assms by (rule divide_positive)
  have b: "concat ?chunks = lst"
    using concat_chunks_from [OF assms, of 0 lst] by simp
  have c: "\<forall>c \<in> set (butlast ?chunks). int (length c) = n"
    using butlast_chunks_from [OF assms, of 0 _ lst] by blast
  have d: "\<forall>c \<in> set ?chunks. c \<noteq> [] \<and> int (length c) \<le> n"
    using chunk_sizes_from [OF assms, of 0 _ lst] by blast
  have e: "divide ([] :: 'a list) n = Inr []"
    using assms by (simp add: divide_positive py_range_done)
  from a b c d e show ?thesis by blast
qed

theorem divide_chunks_witness:
  "(0::int) < 2 \<and> divide [1::nat, 2, 3, 4, 5] 2 = Inr [[1, 2], [3, 4], [5]]
   \<and> concat [[1::nat, 2], [3, 4], [5]] = [1, 2, 3, 4, 5]
   \<and> divide ([]::nat list) 2 = Inr []"
proof -
  have h: "(0::int) < 2" by simp
  have v: "divide [1::nat, 2, 3, 4, 5] 2 = Inr [[1, 2], [3, 4], [5]]"
    by (simp add: divide_def range3_def py_range.simps py_slice_def slice_index_def)
  from divide_chunks [OF h, of "[1::nat, 2, 3, 4, 5]"] v show ?thesis by simp
qed

text \<open>
  Claim C5, as amended. The claim says that every size \<open>\<le> 0\<close> makes \<open>divide\<close> fail. The
  code has no check of its own: a size of zero fails because \<^verbatim>\<open>range\<close> rejects a zero
  step (\<^verbatim>\<open>ValueError\<close>), and a negative size raises nothing: the range from 0 up to the
  length is empty for a negative step, so no chunk is yielded.
\<close>

theorem divide_nonpositive:
  "divide lst 0 = Inl ValueError \<and> (n < 0 \<longrightarrow> divide lst n = Inr [])"
  by (simp add: divide_def range3_def py_range_negative_step)

theorem divide_nonpositive_witness:
  "divide [1::nat, 2, 3] 0 = Inl ValueError \<and> (- 2 :: int) < 0 \<and> divide [1::nat, 2, 3] (- 2) = Inr []"
  using divide_nonpositive [of "[1::nat, 2, 3]" "- 2"] by simp

theorem divide_negative_counterexample:
  "\<not> (\<exists>e. divide [1::nat, 2, 3] (- 1) = Inl e)"
  by (simp add: divide_def range3_def py_range.simps)

end
